theory Spec2Isabelle
  imports Main
begin

section \<open>Error taxonomy (shared/globals/helpers/error-handler.ts)\<close>

text \<open>
  Modelled from the spec: the numeric values of the constants of the
  http-status-codes package that the error classes read (\<open>BAD_REQUEST\<close>,
  \<open>UNAUTHORIZED\<close>, \<open>NOT_FOUND\<close>, \<open>REQUEST_TOO_LONG\<close>, \<open>SERVICE_UNAVAILABLE\<close>).
  The package is a dependency and is not among the sources; the values are the ones
  in the spec's table of error kinds.
\<close>

definition HTTP_STATUS_BAD_REQUEST :: nat where
  "HTTP_STATUS_BAD_REQUEST = 400"

definition HTTP_STATUS_UNAUTHORIZED :: nat where
  "HTTP_STATUS_UNAUTHORIZED = 401"

definition HTTP_STATUS_NOT_FOUND :: nat where
  "HTTP_STATUS_NOT_FOUND = 404"

definition HTTP_STATUS_REQUEST_TOO_LONG :: nat where
  "HTTP_STATUS_REQUEST_TOO_LONG = 413"

definition HTTP_STATUS_SERVICE_UNAVAILABLE :: nat where
  "HTTP_STATUS_SERVICE_UNAVAILABLE = 503"

text \<open>The interface \<open>IError\<close>: the object that \<open>serializeErrors\<close> returns.\<close>

record IError =
  message :: string
  statusCode :: nat
  status :: string

text \<open>
  The abstract class \<open>CustomError\<close> and its six concrete subclasses. Each
  constructor takes the message and hands it to \<open>Error\<close>; \<open>statusCode\<close> and
  \<open>status\<close> are field initialisers of the subclass.
\<close>

datatype CustomError =
    JoiRequestValidationError string
  | BadRequestError string
  | NotFoundError string
  | NotAuthourizeError string
  | FileTooLargeError string
  | ServerError string

fun CustomError_message :: "CustomError \<Rightarrow> string" where
  "CustomError_message (JoiRequestValidationError m) = m"
| "CustomError_message (BadRequestError m) = m"
| "CustomError_message (NotFoundError m) = m"
| "CustomError_message (NotAuthourizeError m) = m"
| "CustomError_message (FileTooLargeError m) = m"
| "CustomError_message (ServerError m) = m"

fun CustomError_statusCode :: "CustomError \<Rightarrow> nat" where
  "CustomError_statusCode (JoiRequestValidationError m) = HTTP_STATUS_BAD_REQUEST"
| "CustomError_statusCode (BadRequestError m) = HTTP_STATUS_BAD_REQUEST"
| "CustomError_statusCode (NotFoundError m) = HTTP_STATUS_NOT_FOUND"
| "CustomError_statusCode (NotAuthourizeError m) = HTTP_STATUS_UNAUTHORIZED"
| "CustomError_statusCode (FileTooLargeError m) = HTTP_STATUS_REQUEST_TOO_LONG"
| "CustomError_statusCode (ServerError m) = HTTP_STATUS_SERVICE_UNAVAILABLE"

fun CustomError_status :: "CustomError \<Rightarrow> string" where
  "CustomError_status (JoiRequestValidationError m) = ''error''"
| "CustomError_status (BadRequestError m) = ''error''"
| "CustomError_status (NotFoundError m) = ''error''"
| "CustomError_status (NotAuthourizeError m) = ''error''"
| "CustomError_status (FileTooLargeError m) = ''error''"
| "CustomError_status (ServerError m) = ''error''"

definition serializeErrors :: "CustomError \<Rightarrow> IError" where
  "serializeErrors e =
     \<lparr>message = CustomError_message e,
      statusCode = CustomError_statusCode e,
      status = CustomError_status e\<rparr>"

text \<open>
  Anything can be thrown or passed to \<open>next\<close>: an instance of \<open>CustomError\<close>, or
  some other failure (a library error, a runtime fault), which carries its own
  internal detail. \<open>error instanceof CustomError\<close> is the test for \<open>Custom\<close>.
\<close>

datatype thrown = Custom CustomError | Other string

section \<open>Settings (config.ts)\<close>

text \<open>
  \<open>process.env\<close> maps names to strings; a name that is not set reads as
  \<open>undefined\<close>. The fields of \<open>Config\<close> are declared \<open>string | undefined\<close>.
\<close>

type_synonym env = "string \<rightharpoonup> string"

record Config =
  DEFAULT_DATABASE_URL :: string
  DATABASE_URL :: "string option"
  JWT_TOKEN :: "string option"
  NODE_ENV :: "string option"
  SECRET_KEY_ONE :: "string option"
  SECRET_KEY_TWO :: "string option"
  CLIENT_URL :: "string option"
  REDIS_HOST :: "string option"

text \<open>
  JavaScript's \<open>a || b\<close> on an optional string: \<open>undefined\<close> and the empty
  string are falsy and give \<open>b\<close>.
\<close>

definition or_default :: "string option \<Rightarrow> string \<Rightarrow> string" where
  "or_default v d = (case v of None \<Rightarrow> d | Some s \<Rightarrow> if s = [] then d else s)"

definition Config_new :: "env \<Rightarrow> Config" where
  "Config_new e =
     (let d = ''mongodb://127.0.0.1:27017/chattyapp-backend'' in
      \<lparr>DEFAULT_DATABASE_URL = d,
       DATABASE_URL = Some (or_default (e ''DATABASE_URL'') d),
       JWT_TOKEN = Some (or_default (e ''JWT_TOKEN'') ''1234''),
       NODE_ENV = Some (or_default (e ''NODE_ENV'') ''''),
       SECRET_KEY_ONE = Some (or_default (e ''SECRET_KEY_ONE'') ''''),
       SECRET_KEY_TWO = Some (or_default (e ''SECRET_KEY_TWO'') ''''),
       CLIENT_URL = Some (or_default (e ''CLIENT_URL'') ''''),
       REDIS_HOST = Some (or_default (e ''REDIS_HOST'') '''')\<rparr>)"

text \<open>
  \<open>Object.entries(this)\<close>: the own properties with their values, in creation
  order (the field initialiser first, then the assignments of the constructor).
  The order only decides which key a failing validation names first.
\<close>

definition entries :: "Config \<Rightarrow> (string \<times> string option) list" where
  "entries c =
     [(''DEFAULT_DATABASE_URL'', Some (DEFAULT_DATABASE_URL c)),
      (''DATABASE_URL'', DATABASE_URL c),
      (''JWT_TOKEN'', JWT_TOKEN c),
      (''NODE_ENV'', NODE_ENV c),
      (''SECRET_KEY_ONE'', SECRET_KEY_ONE c),
      (''SECRET_KEY_TWO'', SECRET_KEY_TWO c),
      (''CLIENT_URL'', CLIENT_URL c),
      (''REDIS_HOST'', REDIS_HOST c)]"

text \<open>The loop of \<open>validateConfig\<close>: the first undefined value throws.\<close>

fun validateEntries :: "(string \<times> string option) list \<Rightarrow> string + unit" where
  "validateEntries [] = Inr ()"
| "validateEntries ((key, v) # es) =
     (if v = None then Inl (''Configuration '' @ key @ '' is undefined.'')
      else validateEntries es)"

definition validateConfig :: "Config \<Rightarrow> string + unit" where
  "validateConfig c = validateEntries (entries c)"

section \<open>The middleware pipeline (setupServer.ts)\<close>

datatype json = JString string | JNumber nat | JObject "(string \<times> json) list"

text \<open>\<open>res.json\<close> of an \<open>IError\<close>: the keys in the order \<open>serializeErrors\<close> writes them.\<close>

definition IError_json :: "IError \<Rightarrow> json" where
  "IError_json r =
     JObject [(''message'', JString (message r)),
              (''status'', JString (status r)),
              (''statusCode'', JNumber (statusCode r))]"

text \<open>A request, as far as the handlers read it: \<open>req.method\<close> and \<open>req.originalUrl\<close>.\<close>

record request =
  req_method :: string
  originalUrl :: string

record response =
  res_statusCode :: nat
  res_json :: json

text \<open>
  What a handler does with a request: it answers, it calls \<open>next()\<close>, or it
  throws or calls \<open>next(err)\<close>.
\<close>

datatype outcome = Respond response | Next | NextError thrown

text \<open>
  The third-party middleware that \<open>securityMiddleware\<close> and
  \<open>standardMiddleware\<close> install, each with the options it is given:
  cookie-session (name, keys, maxAge, secure), hpp, helmet, cors (origin,
  credentials, optionsSuccessStatus, methods), compression, json (limit) and
  urlencoded (extended, limit).
\<close>

datatype middleware =
    CookieSession string "string option list" nat bool
  | Hpp
  | Helmet
  | Cors "string option" bool nat "string list"
  | Compression
  | Json string
  | Urlencoded bool string

datatype log_record =
    LogInfo string string
  | LogError string "string option" thrown

text \<open>
  A layer of the Express application: \<open>app.use(middleware)\<close>, a route with the
  requests it matches and its handler, or an error-handling middleware (four
  parameters).
\<close>

datatype layer =
    Use middleware
  | Route "request \<Rightarrow> bool" "request \<Rightarrow> outcome"
  | UseError "thrown \<Rightarrow> request \<Rightarrow> log_record list \<times> outcome"

definition SERVER_PORT :: nat where
  "SERVER_PORT = 5000"

text \<open>
  The list of methods that the source writes out twice, in the options of cors
  and in the cors options of the socket server.
\<close>

definition allowedMethods :: "string list" where
  "allowedMethods = [''GET'', ''POST'', ''PUT'', ''DELETE'', ''OPTIONS'']"

definition securityMiddleware :: "Config \<Rightarrow> layer list \<Rightarrow> layer list" where
  "securityMiddleware config app =
     app @
     [Use (CookieSession ''session'' [SECRET_KEY_ONE config, SECRET_KEY_TWO config]
             (24 * 7 * 3600000) (NODE_ENV config \<noteq> Some ''development'')),
      Use Hpp,
      Use Helmet,
      Use (Cors (CLIENT_URL config) True 200 allowedMethods)]"

definition standardMiddleware :: "layer list \<Rightarrow> layer list" where
  "standardMiddleware app =
     app @ [Use Compression, Use (Json ''50mb''), Use (Urlencoded True ''50mb'')]"

text \<open>
  \<open>applicationRoutes\<close> comes from the module \<open>./routes\<close>, which is not among the
  sources: the layers it registers on the application are a parameter.
\<close>

definition routesMiddleware :: "layer list \<Rightarrow> layer list \<Rightarrow> layer list" where
  "routesMiddleware applicationRoutes app = app @ applicationRoutes"

text \<open>The handler of \<open>app.all('*', ...)\<close>.\<close>

definition notFound :: "request \<Rightarrow> outcome" where
  "notFound req =
     Respond \<lparr>res_statusCode = HTTP_STATUS_NOT_FOUND,
              res_json = JObject [(''message'', JString (originalUrl req @ '' not found''))]\<rparr>"

text \<open>
  The error-handling middleware: it logs the error on the logger \<open>server\<close>;
  an instance of \<open>CustomError\<close> is answered with its status code and its
  serialisation, anything else goes on with \<open>next()\<close>.
\<close>

definition errorMiddleware :: "thrown \<Rightarrow> request \<Rightarrow> log_record list \<times> outcome" where
  "errorMiddleware error req =
     ([LogError ''server'' None error],
      (case error of
         Custom e \<Rightarrow>
           Respond \<lparr>res_statusCode = CustomError_statusCode e,
                    res_json = IError_json (serializeErrors e)\<rparr>
       | Other d \<Rightarrow> Next))"

text \<open>\<open>app.all('*', ...)\<close> matches every HTTP verb and every path.\<close>

definition globalErrorHandler :: "layer list \<Rightarrow> layer list" where
  "globalErrorHandler app = app @ [Route (\<lambda>req. True) notFound, UseError errorMiddleware]"

text \<open>
  How Express (a dependency, not among the sources) walks the layers that the
  application registers, in the order of their registration. While no error
  is pending, error-handling layers are skipped and every other layer that matches
  is called; while an error is pending, only error-handling layers are called. A
  layer that answers ends the walk; \<open>next()\<close> goes on without an error,
  \<open>next(err)\<close> or a throw goes on with one. \<open>lib\<close> is the behaviour of the
  third-party middleware. At the end of the layers nothing of the application has
  answered: \<open>Unhandled\<close> with the pending error, if any.
\<close>

datatype final = Sent response | Unhandled "thrown option"

fun app_handle ::
  "(middleware \<Rightarrow> request \<Rightarrow> outcome) \<Rightarrow> layer list \<Rightarrow> thrown option \<Rightarrow> request
     \<Rightarrow> log_record list \<times> final" where
  "app_handle lib [] err req = ([], Unhandled err)"
| "app_handle lib (Use mw # ls) None req =
     (case lib mw req of
        Respond r \<Rightarrow> ([], Sent r)
      | Next \<Rightarrow> app_handle lib ls None req
      | NextError e \<Rightarrow> app_handle lib ls (Some e) req)"
| "app_handle lib (Route matches h # ls) None req =
     (if matches req then
        (case h req of
           Respond r \<Rightarrow> ([], Sent r)
         | Next \<Rightarrow> app_handle lib ls None req
         | NextError e \<Rightarrow> app_handle lib ls (Some e) req)
      else app_handle lib ls None req)"
| "app_handle lib (UseError h # ls) None req = app_handle lib ls None req"
| "app_handle lib (UseError h # ls) (Some e) req =
     (case h e req of
        (lg, Respond r) \<Rightarrow> (lg, Sent r)
      | (lg, Next) \<Rightarrow> (lg @ fst (app_handle lib ls None req), snd (app_handle lib ls None req))
      | (lg, NextError e') \<Rightarrow>
          (lg @ fst (app_handle lib ls (Some e') req), snd (app_handle lib ls (Some e') req)))"
| "app_handle lib (Use mw # ls) (Some e) req = app_handle lib ls (Some e) req"
| "app_handle lib (Route matches h # ls) (Some e) req = app_handle lib ls (Some e) req"

definition answers_5xx :: "outcome \<Rightarrow> bool" where
  "answers_5xx out =
     (case out of
        Respond r \<Rightarrow> 500 \<le> res_statusCode r \<and> res_statusCode r < 600
      | Next \<Rightarrow> False
      | NextError e \<Rightarrow> False)"

section \<open>The process: startup and the event loop (app.ts, setupDatabase.ts, setupServer.ts)\<close>

text \<open>Decimal digits of a number, as a template literal prints it.\<close>

fun show_nat :: "nat \<Rightarrow> string" where
  "show_nat n =
     (if n < 10 then [''0123456789'' ! n]
      else show_nat (n div 10) @ [''0123456789'' ! (n mod 10)])"

declare show_nat.simps [simp del]

text \<open>A template literal prints an undefined value as \<open>undefined\<close>.\<close>

definition template :: "string option \<Rightarrow> string" where
  "template v = (case v of None \<Rightarrow> ''undefined'' | Some s \<Rightarrow> s)"

text \<open>
  The two broker clients: \<open>pubClient\<close> and its duplicate \<open>subClient\<close>. The
  promise of a \<open>connect()\<close> is pending until it fulfils or rejects.
\<close>

datatype link = Pub | Sub

datatype settle = Pending | Fulfilled | Rejected thrown

datatype http_state = Idle | Binding | Bound

text \<open>
  What the process does, in order: the calls it makes to its collaborators, the
  records it logs, and the completions of the broker connects it observes
  (\<open>LinkReady\<close>). \<open>Uncaught\<close> is an exception that nothing catches.
\<close>

datatype event =
    Uncaught string
  | MongooseConnect string
  | OnDisconnected
  | Log log_record
  | Exit nat
  | NewHttpServer
  | NewSocketServer "string option" "string list"
  | CreateClient "string option"
  | Duplicate
  | Connect link
  | LinkReady link
  | Adapter
  | Listen nat
  | SocketIOConnections

text \<open>
  What the event loop delivers to the process after \<open>initialize\<close> has run: the
  settlement of a \<open>mongoose.connect\<close>, the \<open>disconnected\<close> event of the database
  connection, the settlement of a broker client's \<open>connect\<close>, and the listening
  callback of the HTTP server.
\<close>

datatype signal =
    DbConnected
  | DbConnectFailed thrown
  | DbDisconnected
  | LinkConnected link
  | LinkFailed link thrown
  | HttpListening

text \<open>
  The state of the process: the layers registered on the Express application, what
  it has done so far, its exit status once it has exited, the number of
  \<open>mongoose.connect\<close> promises still pending, the promises of the two broker
  connects, whether \<open>startServer\<close> is suspended at its \<open>await\<close>, and how far
  the HTTP server is.
\<close>

record process =
  app :: "layer list"
  trace :: "event list"
  exited :: "nat option"
  dbPending :: nat
  pubClient :: settle
  subClient :: settle
  awaiting :: bool
  http :: http_state

definition process0 :: process where
  "process0 =
     \<lparr>app = [], trace = [], exited = None, dbPending = 0,
      pubClient = Pending, subClient = Pending, awaiting = False, http = Idle\<rparr>"

definition emit :: "event list \<Rightarrow> process \<Rightarrow> process" where
  "emit es p = p\<lparr>trace := trace p @ es\<rparr>"

subsection \<open>setupDatabase.ts\<close>

text \<open>The inner function \<open>connect\<close>: it starts a \<open>mongoose.connect\<close>.\<close>

definition connect :: "Config \<Rightarrow> process \<Rightarrow> process" where
  "connect config p =
     emit [MongooseConnect (template (DATABASE_URL config))]
       (p\<lparr>dbPending := Suc (dbPending p)\<rparr>)"

text \<open>The \<open>then\<close> and the \<open>catch\<close> of the promise of \<open>mongoose.connect\<close>.\<close>

definition connect_then :: "process \<Rightarrow> process" where
  "connect_then p =
     emit [Log (LogInfo ''setupDatabase'' ''Successfully connected to database'')] p"

definition connect_catch :: "thrown \<Rightarrow> process \<Rightarrow> process" where
  "connect_catch error p =
     (emit [Log (LogError ''setupDatabase'' (Some ''Error connecting to database'') error),
            Exit 1] p)
     \<lparr>exited := Some 1\<rparr>"

text \<open>The exported function: \<open>connect()\<close>, then the listener for \<open>disconnected\<close>.\<close>

definition databaseConnection :: "Config \<Rightarrow> process \<Rightarrow> process" where
  "databaseConnection config p = emit [OnDisconnected] (connect config p)"

subsection \<open>setupServer.ts\<close>

definition link_state :: "link \<Rightarrow> process \<Rightarrow> settle" where
  "link_state l p = (case l of Pub \<Rightarrow> pubClient p | Sub \<Rightarrow> subClient p)"

definition set_link :: "link \<Rightarrow> settle \<Rightarrow> process \<Rightarrow> process" where
  "set_link l s p = (case l of Pub \<Rightarrow> p\<lparr>pubClient := s\<rparr> | Sub \<Rightarrow> p\<lparr>subClient := s\<rparr>)"

text \<open>
  \<open>createSocketIO\<close> up to its \<open>await\<close>: the socket server, the two clients and
  their \<open>connect()\<close> calls.
\<close>

definition createSocketIO :: "Config \<Rightarrow> process \<Rightarrow> process" where
  "createSocketIO config p =
     (emit [NewSocketServer (CLIENT_URL config) allowedMethods,
            CreateClient (REDIS_HOST config),
            Duplicate,
            Connect Pub,
            Connect Sub] p)
     \<lparr>awaiting := True\<rparr>"

definition startHttpServer :: "nat \<Rightarrow> process \<Rightarrow> process" where
  "startHttpServer pid p =
     (emit [Log (LogInfo ''server'' (''Server has started with process '' @ show_nat pid)),
            Listen SERVER_PORT] p)
     \<lparr>http := Binding\<rparr>"

text \<open>The callback given to \<open>listen\<close>.\<close>

definition listen_callback :: "process \<Rightarrow> process" where
  "listen_callback p =
     (emit [Log (LogInfo ''server'' (''Server running on port '' @ show_nat SERVER_PORT))] p)
     \<lparr>http := Bound\<rparr>"

definition socketIOConnections :: "process \<Rightarrow> process" where
  "socketIOConnections p = emit [SocketIOConnections] p"

text \<open>\<open>startServer\<close> up to the \<open>await\<close> inside \<open>createSocketIO\<close>.\<close>

definition startServer :: "Config \<Rightarrow> process \<Rightarrow> process" where
  "startServer config p = createSocketIO config (emit [NewHttpServer] p)"

text \<open>
  \<open>startServer\<close> after the \<open>await\<close>, when \<open>Promise.all\<close> has fulfilled: the
  adapter is installed, \<open>createSocketIO\<close> returns, and the two calls of the
  \<open>try\<close> block follow.
\<close>

definition startServer_resume :: "nat \<Rightarrow> process \<Rightarrow> process" where
  "startServer_resume pid p =
     socketIOConnections (startHttpServer pid ((emit [Adapter] p)\<lparr>awaiting := False\<rparr>))"

text \<open>\<open>startServer\<close> when \<open>Promise.all\<close> has rejected: the \<open>catch\<close> block.\<close>

definition startServer_catch :: "thrown \<Rightarrow> process \<Rightarrow> process" where
  "startServer_catch error p =
     (emit [Log (LogError ''server'' None error)] p)\<lparr>awaiting := False\<rparr>"

definition start :: "Config \<Rightarrow> layer list \<Rightarrow> process \<Rightarrow> process" where
  "start config applicationRoutes p =
     startServer config
       (p\<lparr>app :=
            globalErrorHandler
              (routesMiddleware applicationRoutes
                 (standardMiddleware (securityMiddleware config (app p))))\<rparr>)"

subsection \<open>app.ts\<close>

text \<open>
  \<open>Application.initialize\<close> on a given settings object: \<open>loadConfig\<close>, then
  \<open>databaseConnection\<close>, then a fresh Express application and \<open>start\<close>. An
  exception of \<open>validateConfig\<close> is caught nowhere: Node prints it and ends the
  process with status 1.
\<close>

definition boot :: "Config \<Rightarrow> layer list \<Rightarrow> process" where
  "boot config applicationRoutes =
     (case validateConfig config of
        Inl msg \<Rightarrow> (emit [Uncaught msg, Exit 1] process0)\<lparr>exited := Some 1\<rparr>
      | Inr u \<Rightarrow> start config applicationRoutes (databaseConnection config process0))"

text \<open>The module \<open>config\<close> builds the settings object from the environment.\<close>

definition initialize :: "env \<Rightarrow> layer list \<Rightarrow> process" where
  "initialize e applicationRoutes = boot (Config_new e) applicationRoutes"

subsection \<open>The event loop\<close>

text \<open>
  One turn of the event loop. A process that has exited does nothing more. A promise
  settles once: a settlement of a \<open>mongoose.connect\<close> that is not pending, or of
  a broker client that has already settled, is no event of the program.
  \<open>Promise.all\<close> rejects with the first rejection and fulfils when both
  clients have connected; \<open>startServer\<close> waits for it only while \<open>awaiting\<close>.
\<close>

definition step :: "Config \<Rightarrow> nat \<Rightarrow> signal \<Rightarrow> process \<Rightarrow> process" where
  "step config pid sig p =
     (if exited p \<noteq> None then p
      else
        (case sig of
           DbConnected \<Rightarrow>
             if dbPending p = 0 then p
             else connect_then (p\<lparr>dbPending := dbPending p - 1\<rparr>)
         | DbConnectFailed error \<Rightarrow>
             if dbPending p = 0 then p
             else connect_catch error (p\<lparr>dbPending := dbPending p - 1\<rparr>)
         | DbDisconnected \<Rightarrow> connect config p
         | LinkConnected l \<Rightarrow>
             if link_state l p \<noteq> Pending then p
             else
               (let p' = emit [LinkReady l] (set_link l Fulfilled p) in
                if awaiting p' \<and> pubClient p' = Fulfilled \<and> subClient p' = Fulfilled
                then startServer_resume pid p'
                else p')
         | LinkFailed l error \<Rightarrow>
             if link_state l p \<noteq> Pending then p
             else
               (let p' = set_link l (Rejected error) p in
                if awaiting p' then startServer_catch error p' else p')
         | HttpListening \<Rightarrow>
             if http p = Binding then listen_callback p else p))"

fun run :: "Config \<Rightarrow> nat \<Rightarrow> signal list \<Rightarrow> process \<Rightarrow> process" where
  "run config pid [] p = p"
| "run config pid (sig # sigs) p = run config pid sigs (step config pid sig p)"

text \<open>The process started in an environment, after the event loop has delivered \<open>sigs\<close>.\<close>

definition execution :: "env \<Rightarrow> layer list \<Rightarrow> nat \<Rightarrow> signal list \<Rightarrow> process" where
  "execution e applicationRoutes pid sigs =
     run (Config_new e) pid sigs (initialize e applicationRoutes)"

subsection \<open>Order of events in a trace\<close>

text \<open>
  A check of a trace: every \<open>Listen\<close> comes after both \<open>LinkReady Pub\<close> and
  \<open>LinkReady Sub\<close>. The two flags say whether the events were seen before the
  list starts.
\<close>

fun links_before_listen :: "bool \<Rightarrow> bool \<Rightarrow> event list \<Rightarrow> bool" where
  "links_before_listen a b [] = True"
| "links_before_listen a b (Listen port # es) = (a \<and> b \<and> links_before_listen a b es)"
| "links_before_listen a b (LinkReady Pub # es) = links_before_listen True b es"
| "links_before_listen a b (LinkReady Sub # es) = links_before_listen a True es"
| "links_before_listen a b (e # es) = links_before_listen a b es"

text \<open>
  The invariant of the event loop behind the order of attach and listen: the trace
  passes the check, and a client whose promise has fulfilled has its \<open>LinkReady\<close>
  in the trace.
\<close>

definition attach_inv :: "process \<Rightarrow> bool" where
  "attach_inv p =
     (links_before_listen False False (trace p)
      \<and> (pubClient p = Fulfilled \<longrightarrow> LinkReady Pub \<in> set (trace p))
      \<and> (subClient p = Fulfilled \<longrightarrow> LinkReady Sub \<in> set (trace p)))"

section \<open>Facts about the model\<close>

lemmas proc_defs = emit_def connect_def connect_then_def connect_catch_def
  databaseConnection_def link_state_def set_link_def createSocketIO_def startHttpServer_def
  listen_callback_def socketIOConnections_def startServer_def startServer_resume_def
  startServer_catch_def start_def

lemma validate_Config_new: "validateConfig (Config_new e) = Inr ()"
  by (simp add: validateConfig_def entries_def Config_new_def Let_def)

lemma initialize_state:
  "initialize e rs =
     \<lparr>app = globalErrorHandler
              (routesMiddleware rs (standardMiddleware (securityMiddleware (Config_new e) []))),
      trace = [MongooseConnect (template (DATABASE_URL (Config_new e))), OnDisconnected,
               NewHttpServer,
               NewSocketServer (CLIENT_URL (Config_new e)) allowedMethods,
               CreateClient (REDIS_HOST (Config_new e)), Duplicate, Connect Pub, Connect Sub],
      exited = None, dbPending = 1, pubClient = Pending, subClient = Pending,
      awaiting = True, http = Idle\<rparr>"
  by (simp add: initialize_def boot_def validate_Config_new proc_defs process0_def)

subsection \<open>Runs of the event loop\<close>

lemma run_append: "run c pid (xs @ ys) p = run c pid ys (run c pid xs p)"
  by (induction xs arbitrary: p) simp_all

lemma execution_append:
  "execution e rs pid (xs @ ys) = run (Config_new e) pid ys (execution e rs pid xs)"
  by (simp add: execution_def run_append)

lemma execution_snoc:
  "execution e rs pid (xs @ [s]) = step (Config_new e) pid s (execution e rs pid xs)"
  by (simp add: execution_append)

lemma step_exited: "exited p \<noteq> None \<Longrightarrow> step c pid s p = p"
  by (simp add: step_def)

lemma run_exited: "exited p \<noteq> None \<Longrightarrow> run c pid sigs p = p"
  by (induction sigs) (simp_all add: step_exited)

lemma step_app: "app (step c pid s p) = app p"
  by (auto simp: step_def proc_defs Let_def split: signal.splits link.splits)

lemma run_app: "app (run c pid sigs p) = app p"
  by (induction sigs arbitrary: p) (simp_all add: step_app)

subsection \<open>Where \<open>Listen\<close> can come from\<close>

lemma boot_trace_no_listen: "Listen port \<notin> set (trace (boot c rs))"
  by (simp add: boot_def proc_defs process0_def split: sum.splits)

lemma step_listen_port:
  "Listen port \<in> set (trace (step c pid s p)) \<Longrightarrow>
     Listen port \<in> set (trace p) \<or> port = SERVER_PORT"
  by (auto simp: step_def proc_defs Let_def split: if_splits signal.splits link.splits)

lemma run_listen_port:
  "Listen port \<in> set (trace (run c pid sigs p)) \<Longrightarrow>
     Listen port \<in> set (trace p) \<or> port = SERVER_PORT"
proof (induction sigs arbitrary: p)
  case Nil
  then show ?case by simp
next
  case (Cons s sigs)
  from Cons.IH [of "step c pid s p"] Cons.prems
  have "Listen port \<in> set (trace (step c pid s p)) \<or> port = SERVER_PORT" by simp
  then show ?case using step_listen_port by blast
qed

text \<open>Once \<open>startServer\<close> no longer waits, it never waits again and never listens.\<close>

lemma step_not_awaiting: "\<not> awaiting p \<Longrightarrow> \<not> awaiting (step c pid s p)"
  by (auto simp: step_def proc_defs Let_def split: if_splits signal.splits link.splits)

lemma step_not_awaiting_listen:
  "\<not> awaiting p \<Longrightarrow> Listen port \<in> set (trace (step c pid s p)) \<Longrightarrow>
     Listen port \<in> set (trace p)"
  by (auto simp: step_def proc_defs Let_def split: if_splits signal.splits link.splits)

lemma run_not_awaiting_listen:
  "\<not> awaiting p \<Longrightarrow> Listen port \<in> set (trace (run c pid sigs p)) \<Longrightarrow>
     Listen port \<in> set (trace p)"
proof (induction sigs arbitrary: p)
  case Nil
  then show ?case by simp
next
  case (Cons s sigs)
  have "\<not> awaiting (step c pid s p)" using Cons.prems(1) by (rule step_not_awaiting)
  with Cons.IH [of "step c pid s p"] Cons.prems(2)
  have "Listen port \<in> set (trace (step c pid s p))" by simp
  with Cons.prems(1) show ?case by (rule step_not_awaiting_listen)
qed

text \<open>While \<open>startServer\<close> waits, nothing has listened yet.\<close>

lemma step_awaiting_no_listen:
  "(awaiting p \<longrightarrow> (\<forall>port. Listen port \<notin> set (trace p))) \<Longrightarrow>
   awaiting (step c pid s p) \<Longrightarrow> Listen port \<notin> set (trace (step c pid s p))"
  by (auto simp: step_def proc_defs Let_def split: if_splits signal.splits link.splits)

lemma run_awaiting_no_listen:
  "(awaiting p \<longrightarrow> (\<forall>port. Listen port \<notin> set (trace p))) \<Longrightarrow>
   awaiting (run c pid sigs p) \<Longrightarrow> Listen port \<notin> set (trace (run c pid sigs p))"
proof (induction sigs arbitrary: p port)
  case Nil
  then show ?case by simp
next
  case (Cons s sigs)
  have "awaiting (step c pid s p) \<longrightarrow> (\<forall>port. Listen port \<notin> set (trace (step c pid s p)))"
    using step_awaiting_no_listen [OF Cons.prems(1)] by blast
  from Cons.IH [OF this] Cons.prems(2) show ?case by simp
qed

lemma execution_awaiting_no_listen:
  assumes "awaiting (execution e rs pid sigs)"
  shows "Listen port \<notin> set (trace (execution e rs pid sigs))"
proof -
  have "awaiting (initialize e rs) \<longrightarrow> (\<forall>port. Listen port \<notin> set (trace (initialize e rs)))"
    by (simp add: initialize_def boot_trace_no_listen)
  from run_awaiting_no_listen [OF this] assms show ?thesis
    by (simp add: execution_def)
qed

subsection \<open>The order of attach and listen\<close>

lemma links_before_listen_append:
  "links_before_listen a b (xs @ ys) =
     (links_before_listen a b xs \<and>
      links_before_listen (a \<or> LinkReady Pub \<in> set xs) (b \<or> LinkReady Sub \<in> set xs) ys)"
  by (induction a b xs rule: links_before_listen.induct) auto

lemma links_before_listen_split:
  assumes "links_before_listen False False tr" and "tr = pre @ Listen port # post"
  shows "LinkReady Pub \<in> set pre \<and> LinkReady Sub \<in> set pre"
  using assms by (simp add: links_before_listen_append)

lemma attach_inv_boot: "attach_inv (boot c rs)"
  by (simp add: attach_inv_def boot_def proc_defs process0_def split: sum.splits)

lemma attach_inv_step: "attach_inv p \<Longrightarrow> attach_inv (step c pid s p)"
  unfolding attach_inv_def step_def
  by (cases s) (auto simp: proc_defs Let_def links_before_listen_append split: link.splits)

lemma attach_inv_run: "attach_inv p \<Longrightarrow> attach_inv (run c pid sigs p)"
  by (induction sigs arbitrary: p) (simp_all add: attach_inv_step)

lemma execution_attach_inv: "attach_inv (execution e rs pid sigs)"
  unfolding execution_def initialize_def using attach_inv_boot by (rule attach_inv_run)

subsection \<open>Layers that let a request through\<close>

lemma app_handle_passed_over:
  assumes "\<forall>mw. Use mw \<in> set ls \<longrightarrow> lib mw req = Next"
    and "\<forall>matches h. Route matches h \<in> set ls \<longrightarrow> \<not> matches req"
  shows "app_handle lib (ls @ rest) None req = app_handle lib rest None req"
  using assms
proof (induction ls)
  case Nil
  then show ?case by simp
next
  case (Cons l ls)
  have "\<forall>mw. Use mw \<in> set ls \<longrightarrow> lib mw req = Next"
    and "\<forall>matches h. Route matches h \<in> set ls \<longrightarrow> \<not> matches req"
    using Cons.prems by auto
  then have IH: "app_handle lib (ls @ rest) None req = app_handle lib rest None req"
    by (rule Cons.IH)
  show ?case
  proof (cases l)
    case (Use mw)
    with Cons.prems(1) have "lib mw req = Next" by simp
    with Use IH show ?thesis by simp
  next
    case (Route matches h)
    with Cons.prems(2) have "\<not> matches req" by simp
    with Route IH show ?thesis by simp
  next
    case (UseError h)
    with IH show ?thesis by simp
  qed
qed

section \<open>The error-translation stage\<close>

text \<open>
  C1, as the code has it. For every failure that is not an instance of
  \<open>CustomError\<close>, the error-translation stage logs the failure and writes no
  response of its own: it calls \<open>next()\<close> without the error. With the not-found
  and error stages installed, a pending failure of that kind is logged once and
  leaves the application's layers with no answer and no pending error, so the stage
  sends no internal detail to the client.
\<close>

theorem unclassified_fault_logged_and_passed_on:
  "errorMiddleware (Other d) req = ([LogError ''server'' None (Other d)], Next)
   \<and> app_handle lib (globalErrorHandler []) (Some (Other d)) req =
       ([LogError ''server'' None (Other d)], Unhandled None)"
  by (simp add: errorMiddleware_def globalErrorHandler_def)

text \<open>
  The stage does not answer an unclassified failure with a status of the 500
  class: for the failure \<open>boom\<close> on \<open>GET /users\<close> its outcome is no response at all.
\<close>

theorem unclassified_fault_not_answered_5xx:
  "\<not> answers_5xx
       (snd (errorMiddleware (Other ''boom'') \<lparr>req_method = ''GET'', originalUrl = ''/users''\<rparr>))"
  by (simp add: errorMiddleware_def answers_5xx_def)

section \<open>Settings\<close>

text \<open>
  C2, evaluated on the environment in which no variable is set. Validation
  succeeds, and once both broker clients have connected and the server has bound
  its port, the process has not exited and listens on port 5000: startup with every
  required setting absent reaches the listening state.
\<close>

theorem absent_settings_startup_proceeds:
  "validateConfig (Config_new Map.empty) = Inr ()
   \<and> exited (execution Map.empty rs pid [LinkConnected Pub, LinkConnected Sub, HttpListening])
       = None
   \<and> http (execution Map.empty rs pid [LinkConnected Pub, LinkConnected Sub, HttpListening])
       = Bound
   \<and> Listen 5000 \<in>
       set (trace (execution Map.empty rs pid
                     [LinkConnected Pub, LinkConnected Sub, HttpListening]))"
  by (simp add: validate_Config_new execution_def initialize_state step_def proc_defs
      SERVER_PORT_def)

text \<open>
  C9: for every environment, also the one with no variable set, the constructor
  of \<open>Config\<close> gives every field a string, so \<open>validateConfig\<close> returns without
  throwing. A variable that is absent falls back to its default: the hard-coded
  database URL, \<open>1234\<close> for the token secret, the empty string for the rest.
\<close>

theorem Config_new_always_valid:
  "validateConfig (Config_new e) = Inr ()
   \<and> DATABASE_URL (Config_new e) \<noteq> None \<and> JWT_TOKEN (Config_new e) \<noteq> None
   \<and> NODE_ENV (Config_new e) \<noteq> None \<and> SECRET_KEY_ONE (Config_new e) \<noteq> None
   \<and> SECRET_KEY_TWO (Config_new e) \<noteq> None \<and> CLIENT_URL (Config_new e) \<noteq> None
   \<and> REDIS_HOST (Config_new e) \<noteq> None
   \<and> DATABASE_URL (Config_new (e(''DATABASE_URL'' := None))) =
        Some ''mongodb://127.0.0.1:27017/chattyapp-backend''
   \<and> JWT_TOKEN (Config_new (e(''JWT_TOKEN'' := None))) = Some ''1234''
   \<and> NODE_ENV (Config_new (e(''NODE_ENV'' := None))) = Some ''''
   \<and> SECRET_KEY_ONE (Config_new (e(''SECRET_KEY_ONE'' := None))) = Some ''''
   \<and> SECRET_KEY_TWO (Config_new (e(''SECRET_KEY_TWO'' := None))) = Some ''''
   \<and> CLIENT_URL (Config_new (e(''CLIENT_URL'' := None))) = Some ''''
   \<and> REDIS_HOST (Config_new (e(''REDIS_HOST'' := None))) = Some ''''"
  by (simp add: validateConfig_def entries_def) (simp add: Config_new_def Let_def or_default_def)

section \<open>The error taxonomy serialises as documented\<close>

text \<open>
  C4: for each of the six error classes and every message, \<open>serializeErrors\<close>
  returns the record with the message unchanged, the status \<open>error\<close> and the
  status code of the class: 400 for JoiRequestValidationError and BadRequestError,
  401 for NotAuthourizeError, 404 for NotFoundError, 413 for FileTooLargeError and
  503 for ServerError.
\<close>

theorem serializeErrors_taxonomy:
  "serializeErrors (JoiRequestValidationError m) =
     \<lparr>message = m, statusCode = 400, status = ''error''\<rparr>
   \<and> serializeErrors (BadRequestError m) =
     \<lparr>message = m, statusCode = 400, status = ''error''\<rparr>
   \<and> serializeErrors (NotAuthourizeError m) =
     \<lparr>message = m, statusCode = 401, status = ''error''\<rparr>
   \<and> serializeErrors (NotFoundError m) =
     \<lparr>message = m, statusCode = 404, status = ''error''\<rparr>
   \<and> serializeErrors (FileTooLargeError m) =
     \<lparr>message = m, statusCode = 413, status = ''error''\<rparr>
   \<and> serializeErrors (ServerError m) =
     \<lparr>message = m, statusCode = 503, status = ''error''\<rparr>"
  by (simp add: serializeErrors_def HTTP_STATUS_BAD_REQUEST_def
      HTTP_STATUS_UNAUTHORIZED_def HTTP_STATUS_NOT_FOUND_def
      HTTP_STATUS_REQUEST_TOO_LONG_def HTTP_STATUS_SERVICE_UNAVAILABLE_def)

section \<open>The broker links and the listening socket\<close>

text \<open>
  C3, as the code has it. If the connect of either broker client rejects while
  \<open>startServer\<close> waits for the two connects, \<open>startServer\<close> logs the error and
  returns: the process does not exit by it, and whatever the event loop delivers
  afterwards, the HTTP server is never told to listen.
\<close>

theorem broker_failure_logged_never_listens:
  assumes "exited (execution e rs pid sigs0) = None"
    and "awaiting (execution e rs pid sigs0)"
    and "link_state l (execution e rs pid sigs0) = Pending"
  shows "exited (execution e rs pid (sigs0 @ [LinkFailed l err])) = None
    \<and> trace (execution e rs pid (sigs0 @ [LinkFailed l err])) =
        trace (execution e rs pid sigs0) @ [Log (LogError ''server'' None err)]
    \<and> (\<forall>sigs port.
          Listen port \<notin> set (trace (execution e rs pid (sigs0 @ LinkFailed l err # sigs))))"
proof -
  let ?p = "execution e rs pid sigs0"
  let ?q = "step (Config_new e) pid (LinkFailed l err) ?p"
  have q: "?q = startServer_catch err (set_link l (Rejected err) ?p)"
    using assms by (cases l) (simp_all add: step_def set_link_def link_state_def)
  have ex: "exited ?q = None"
    unfolding q using assms(1)
    by (cases l) (simp_all add: startServer_catch_def set_link_def emit_def)
  have tr: "trace ?q = trace ?p @ [Log (LogError ''server'' None err)]"
    unfolding q by (cases l) (simp_all add: startServer_catch_def set_link_def emit_def)
  have aw: "\<not> awaiting ?q"
    unfolding q by (simp add: startServer_catch_def)
  have quiet: "Listen port \<notin> set (trace ?q)" for port
    using execution_awaiting_no_listen [OF assms(2), of port] by (simp add: tr)
  have later: "Listen port \<notin> set (trace (run (Config_new e) pid sigs ?q))" for sigs port
    using run_not_awaiting_listen [OF aw] quiet by blast
  have "execution e rs pid (sigs0 @ LinkFailed l err # sigs) = run (Config_new e) pid sigs ?q"
    for sigs
    by (simp add: execution_append)
  with later ex tr show ?thesis by (simp add: execution_snoc)
qed

text \<open>
  An instance: the subscribe client has connected, then the connect of the publish
  client is refused.
\<close>

theorem broker_failure_logged_never_listens_witness:
  "exited (execution Map.empty [] 7 [LinkConnected Sub]) = None
   \<and> awaiting (execution Map.empty [] 7 [LinkConnected Sub])
   \<and> link_state Pub (execution Map.empty [] 7 [LinkConnected Sub]) = Pending
   \<and> exited (execution Map.empty [] 7 [LinkConnected Sub, LinkFailed Pub (Other ''ECONNREFUSED'')])
       = None
   \<and> trace (execution Map.empty [] 7 [LinkConnected Sub, LinkFailed Pub (Other ''ECONNREFUSED'')])
       = trace (execution Map.empty [] 7 [LinkConnected Sub])
         @ [Log (LogError ''server'' None (Other ''ECONNREFUSED''))]
   \<and> (\<forall>sigs port.
         Listen port \<notin>
           set (trace (execution Map.empty [] 7
                  (LinkConnected Sub # LinkFailed Pub (Other ''ECONNREFUSED'') # sigs))))"
proof -
  have h1: "exited (execution Map.empty [] 7 [LinkConnected Sub]) = None"
    by (simp add: execution_def initialize_state step_def proc_defs)
  have h2: "awaiting (execution Map.empty [] 7 [LinkConnected Sub])"
    by (simp add: execution_def initialize_state step_def proc_defs)
  have h3: "link_state Pub (execution Map.empty [] 7 [LinkConnected Sub]) = Pending"
    by (simp add: execution_def initialize_state step_def proc_defs)
  from broker_failure_logged_never_listens [OF h1 h2 h3, of "Other ''ECONNREFUSED''"] h1 h2 h3
  show ?thesis by simp
qed

text \<open>
  The failure of a broker link does not end the process: when the connect of the
  publish client is refused, the error is logged and the process is still running.
\<close>

theorem broker_failure_does_not_exit:
  "exited (execution Map.empty [] 7 [LinkFailed Pub (Other ''ECONNREFUSED'')]) = None
   \<and> trace (execution Map.empty [] 7 [LinkFailed Pub (Other ''ECONNREFUSED'')]) =
       [MongooseConnect ''mongodb://127.0.0.1:27017/chattyapp-backend'', OnDisconnected,
        NewHttpServer, NewSocketServer (Some '''') allowedMethods, CreateClient (Some ''''),
        Duplicate, Connect Pub, Connect Sub,
        Log (LogError ''server'' None (Other ''ECONNREFUSED''))]"
  by (simp add: execution_def initialize_state step_def proc_defs Config_new_def Let_def
      or_default_def template_def)

text \<open>
  C5: in every run of the process, a call of \<open>listen\<close> comes after the connects of
  both broker clients, the publish client and its duplicate, have completed.
\<close>

theorem listen_after_both_links:
  assumes "trace (execution e rs pid sigs) = pre @ Listen port # post"
  shows "LinkReady Pub \<in> set pre \<and> LinkReady Sub \<in> set pre"
proof -
  have "links_before_listen False False (trace (execution e rs pid sigs))"
    using execution_attach_inv [of e rs pid sigs] by (simp add: attach_inv_def)
  then show ?thesis using assms by (rule links_before_listen_split)
qed

text \<open>
  An instance: the subscribe client connects, the database connects, the publish
  client connects; only then does the server listen.
\<close>

theorem listen_after_both_links_witness:
  "trace (execution Map.empty [] 7 [LinkConnected Sub, DbConnected, LinkConnected Pub]) =
     [MongooseConnect ''mongodb://127.0.0.1:27017/chattyapp-backend'', OnDisconnected,
      NewHttpServer, NewSocketServer (Some '''') allowedMethods, CreateClient (Some ''''),
      Duplicate, Connect Pub, Connect Sub, LinkReady Sub,
      Log (LogInfo ''setupDatabase'' ''Successfully connected to database''),
      LinkReady Pub, Adapter,
      Log (LogInfo ''server'' ''Server has started with process 7'')]
     @ Listen 5000 # [SocketIOConnections]
   \<and> LinkReady Pub \<in>
       set [MongooseConnect ''mongodb://127.0.0.1:27017/chattyapp-backend'', OnDisconnected,
            NewHttpServer, NewSocketServer (Some '''') allowedMethods, CreateClient (Some ''''),
            Duplicate, Connect Pub, Connect Sub, LinkReady Sub,
            Log (LogInfo ''setupDatabase'' ''Successfully connected to database''),
            LinkReady Pub, Adapter,
            Log (LogInfo ''server'' ''Server has started with process 7'')]
   \<and> LinkReady Sub \<in>
       set [MongooseConnect ''mongodb://127.0.0.1:27017/chattyapp-backend'', OnDisconnected,
            NewHttpServer, NewSocketServer (Some '''') allowedMethods, CreateClient (Some ''''),
            Duplicate, Connect Pub, Connect Sub, LinkReady Sub,
            Log (LogInfo ''setupDatabase'' ''Successfully connected to database''),
            LinkReady Pub, Adapter,
            Log (LogInfo ''server'' ''Server has started with process 7'')]"
proof -
  have h: "trace (execution Map.empty [] 7 [LinkConnected Sub, DbConnected, LinkConnected Pub]) =
     [MongooseConnect ''mongodb://127.0.0.1:27017/chattyapp-backend'', OnDisconnected,
      NewHttpServer, NewSocketServer (Some '''') allowedMethods, CreateClient (Some ''''),
      Duplicate, Connect Pub, Connect Sub, LinkReady Sub,
      Log (LogInfo ''setupDatabase'' ''Successfully connected to database''),
      LinkReady Pub, Adapter,
      Log (LogInfo ''server'' ''Server has started with process 7'')]
     @ Listen 5000 # [SocketIOConnections]"
    by (simp add: execution_def initialize_state step_def proc_defs Config_new_def Let_def
        or_default_def template_def SERVER_PORT_def show_nat.simps)
  from h listen_after_both_links [OF h] show ?thesis by (rule conjI)
qed

text \<open>
  C10: the port given to \<open>listen\<close> is the constant 5000. Whatever the settings
  object holds and whatever the event loop delivers, every call of \<open>listen\<close> in a
  run has port 5000; and in every environment the server does listen on 5000 once
  both broker clients have connected.
\<close>

theorem listen_port_fixed:
  "(Listen port \<in> set (trace (run c pid sigs (boot c rs))) \<longrightarrow> port = 5000)
   \<and> Listen 5000 \<in> set (trace (execution e rs pid [LinkConnected Pub, LinkConnected Sub]))"
proof
  show "Listen port \<in> set (trace (run c pid sigs (boot c rs))) \<longrightarrow> port = 5000"
    using run_listen_port [of port c pid sigs "boot c rs"] boot_trace_no_listen [of port c rs]
    by (auto simp: SERVER_PORT_def)
  show "Listen 5000 \<in> set (trace (execution e rs pid [LinkConnected Pub, LinkConnected Sub]))"
    by (simp add: execution_def initialize_state step_def proc_defs SERVER_PORT_def)
qed

text \<open>
  An instance: with the settings of the empty environment and both clients
  connected, the run has a call of \<open>listen\<close>, on port 5000.
\<close>

theorem listen_port_fixed_witness:
  "Listen 5000 \<in>
     set (trace (run (Config_new Map.empty) 7 [LinkConnected Pub, LinkConnected Sub]
                   (boot (Config_new Map.empty) [])))
   \<and> Listen 5000 \<in> set (trace (execution Map.empty [] 7 [LinkConnected Pub, LinkConnected Sub]))"
  using listen_port_fixed [where port = 5000 and c = "Config_new Map.empty" and pid = 7
      and sigs = "[LinkConnected Pub, LinkConnected Sub]" and rs = "[]" and e = Map.empty]
  by (simp add: execution_def initialize_def)

section \<open>The middleware pipeline\<close>

text \<open>
  C6: the layers of the application are, in this order, the security stage
  (cookie session, hpp, helmet, cors), the stage that decodes bodies of at most
  50mb (compression, json, urlencoded), the layers the routes register, the
  not-found route and the error-translation middleware. So the security and size
  checks are registered before every route, and the not-found and error stages after
  all of them; nothing the event loop delivers changes the order.
\<close>

theorem middleware_order:
  "app (execution e rs pid sigs) =
     [Use (CookieSession ''session'' [SECRET_KEY_ONE (Config_new e), SECRET_KEY_TWO (Config_new e)]
             604800000 (NODE_ENV (Config_new e) \<noteq> Some ''development'')),
      Use Hpp,
      Use Helmet,
      Use (Cors (CLIENT_URL (Config_new e)) True 200
             [''GET'', ''POST'', ''PUT'', ''DELETE'', ''OPTIONS'']),
      Use Compression,
      Use (Json ''50mb''),
      Use (Urlencoded True ''50mb'')]
     @ rs @ [Route (\<lambda>req. True) notFound, UseError errorMiddleware]"
  by (simp add: execution_def run_app initialize_state globalErrorHandler_def
      routesMiddleware_def standardMiddleware_def securityMiddleware_def allowedMethods_def)

text \<open>
  C7, as the code has it. The not-found route is the last but one layer, so it
  answers only what reaches it. A request that every middleware registered on the
  application passes on with \<open>next()\<close> (the security stage, the body decoding
  and whatever middleware the routes register) and that no registered route matches
  is answered with status 404 and the body whose only member is \<open>message\<close>, the
  original URL followed by \<open>not found\<close>.
\<close>

theorem unmatched_request_not_found:
  assumes "\<forall>mw. Use mw \<in> set (app (execution e rs pid sigs)) \<longrightarrow> lib mw req = Next"
    and "\<forall>matches h. Route matches h \<in> set rs \<longrightarrow> \<not> matches req"
  shows "app_handle lib (app (execution e rs pid sigs)) None req =
     ([], Sent \<lparr>res_statusCode = 404,
               res_json = JObject [(''message'', JString (originalUrl req @ '' not found''))]\<rparr>)"
proof -
  let ?front = "standardMiddleware (securityMiddleware (Config_new e) []) @ rs"
  have app: "app (execution e rs pid sigs) =
      ?front @ [Route (\<lambda>req. True) notFound, UseError errorMiddleware]"
    by (simp add: execution_def run_app initialize_state globalErrorHandler_def
        routesMiddleware_def)
  have uses: "\<forall>mw. Use mw \<in> set ?front \<longrightarrow> lib mw req = Next"
    using assms(1) unfolding app by simp
  have routes: "\<forall>matches h. Route matches h \<in> set ?front \<longrightarrow> \<not> matches req"
    using assms(2) by (auto simp: standardMiddleware_def securityMiddleware_def)
  have "app_handle lib (app (execution e rs pid sigs)) None req =
      app_handle lib [Route (\<lambda>req. True) notFound, UseError errorMiddleware] None req"
    unfolding app using uses routes by (rule app_handle_passed_over)
  then show ?thesis
    by (simp add: notFound_def HTTP_STATUS_NOT_FOUND_def)
qed

text \<open>
  An instance: the only route is \<open>GET /health\<close>, and \<open>GET /nope\<close> is answered
  with 404 and the message \<open>/nope not found\<close>.
\<close>

theorem get_nope_not_found:
  "app_handle (\<lambda>mw req. Next)
     (app (execution Map.empty
             [Route (\<lambda>req. req_method req = ''GET'' \<and> originalUrl req = ''/health'')
                    (\<lambda>req. Respond \<lparr>res_statusCode = 200, res_json = JString ''ok''\<rparr>)]
             7 []))
     None \<lparr>req_method = ''GET'', originalUrl = ''/nope''\<rparr> =
   ([], Sent \<lparr>res_statusCode = 404,
             res_json = JObject [(''message'', JString ''/nope not found'')]\<rparr>)"
  using unmatched_request_not_found [where lib = "\<lambda>mw req. Next" and e = Map.empty
      and rs = "[Route (\<lambda>req. req_method req = ''GET'' \<and> originalUrl req = ''/health'')
                       (\<lambda>req. Respond \<lparr>res_statusCode = 200, res_json = JString ''ok''\<rparr>)]"
      and pid = 7 and sigs = "[]" and req = "\<lparr>req_method = ''GET'', originalUrl = ''/nope''\<rparr>"]
  by simp

text \<open>
  Not every request that matches no route gets the not-found answer. Let the json
  middleware fail on the body of \<open>POST /nope\<close> (a malformed body), every other
  middleware passing the request on, and let no route be registered. The failure
  skips the not-found route, the error middleware logs it and calls \<open>next()\<close>, and
  the layers of the application end without an answer: the 404 with the message
  \<open>/nope not found\<close> is never sent.
\<close>

theorem unmatched_request_not_answered_by_not_found:
  "app_handle
     (\<lambda>mw req. case mw of Json limit \<Rightarrow> NextError (Other ''entity.parse.failed'') | _ \<Rightarrow> Next)
     (app (execution Map.empty [] 7 []))
     None \<lparr>req_method = ''POST'', originalUrl = ''/nope''\<rparr> =
   ([LogError ''server'' None (Other ''entity.parse.failed'')], Unhandled None)
   \<and> app_handle
     (\<lambda>mw req. case mw of Json limit \<Rightarrow> NextError (Other ''entity.parse.failed'') | _ \<Rightarrow> Next)
     (app (execution Map.empty [] 7 []))
     None \<lparr>req_method = ''POST'', originalUrl = ''/nope''\<rparr> \<noteq>
   ([], Sent \<lparr>res_statusCode = 404,
             res_json = JObject [(''message'', JString ''/nope not found'')]\<rparr>)"
  by (simp add: execution_def initialize_state globalErrorHandler_def routesMiddleware_def
      standardMiddleware_def securityMiddleware_def errorMiddleware_def)

section \<open>The database connection\<close>

text \<open>
  C8: while the process runs, a rejected \<open>mongoose.connect\<close> (the initial attempt
  in particular) is logged as an error, the process exits with status 1, and
  nothing happens afterwards; a \<open>disconnected\<close> event of the database only starts
  another \<open>mongoose.connect\<close>: nothing is logged, the process does not exit, and
  the application, the broker clients and the HTTP server are left as they were.
\<close>

theorem database_failure_fatal_disconnect_reconnects:
  assumes "exited (execution e rs pid sigs0) = None"
  shows "(dbPending (execution e rs pid sigs0) \<noteq> 0 \<longrightarrow>
            exited (execution e rs pid (sigs0 @ [DbConnectFailed err])) = Some 1
          \<and> trace (execution e rs pid (sigs0 @ [DbConnectFailed err])) =
              trace (execution e rs pid sigs0)
              @ [Log (LogError ''setupDatabase'' (Some ''Error connecting to database'') err),
                 Exit 1]
          \<and> (\<forall>sigs. execution e rs pid (sigs0 @ DbConnectFailed err # sigs) =
                      execution e rs pid (sigs0 @ [DbConnectFailed err])))
     \<and> execution e rs pid (sigs0 @ [DbDisconnected]) =
         (execution e rs pid sigs0)
           \<lparr>trace := trace (execution e rs pid sigs0)
                      @ [MongooseConnect (template (DATABASE_URL (Config_new e)))],
            dbPending := Suc (dbPending (execution e rs pid sigs0))\<rparr>"
proof -
  let ?p = "execution e rs pid sigs0"
  let ?q = "step (Config_new e) pid (DbConnectFailed err) ?p"
  have a: "exited ?q = Some 1 \<and> trace ?q = trace ?p
      @ [Log (LogError ''setupDatabase'' (Some ''Error connecting to database'') err), Exit 1]"
    if "dbPending ?p \<noteq> 0"
    using assms that by (simp add: step_def connect_catch_def emit_def)
  have b: "run (Config_new e) pid sigs ?q = ?q" if "dbPending ?p \<noteq> 0" for sigs
    using a [OF that] by (simp add: run_exited)
  have c: "execution e rs pid (sigs0 @ DbConnectFailed err # sigs) =
      run (Config_new e) pid sigs ?q" for sigs
    by (simp add: execution_append)
  have d: "step (Config_new e) pid DbDisconnected ?p =
      ?p\<lparr>trace := trace ?p @ [MongooseConnect (template (DATABASE_URL (Config_new e)))],
         dbPending := Suc (dbPending ?p)\<rparr>"
    using assms by (simp add: step_def connect_def emit_def)
  show ?thesis using a b c d by (simp add: execution_snoc)
qed

text \<open>
  Two instances. The initial connect is refused: the error is logged and the
  process exits with status 1 before anything listens. The initial connect
  succeeds and the connection is then lost: a second \<open>mongoose.connect\<close> follows.
\<close>

theorem database_failure_fatal_disconnect_reconnects_witness:
  "exited (execution Map.empty [] 7 []) = None
   \<and> dbPending (execution Map.empty [] 7 []) \<noteq> 0
   \<and> exited (execution Map.empty [] 7 [DbConnectFailed (Other ''ECONNREFUSED'')]) = Some 1
   \<and> trace (execution Map.empty [] 7 [DbConnectFailed (Other ''ECONNREFUSED'')]) =
       [MongooseConnect ''mongodb://127.0.0.1:27017/chattyapp-backend'', OnDisconnected,
        NewHttpServer, NewSocketServer (Some '''') allowedMethods, CreateClient (Some ''''),
        Duplicate, Connect Pub, Connect Sub,
        Log (LogError ''setupDatabase'' (Some ''Error connecting to database'')
               (Other ''ECONNREFUSED'')),
        Exit 1]
   \<and> (\<forall>sigs. execution Map.empty [] 7 (DbConnectFailed (Other ''ECONNREFUSED'') # sigs) =
               execution Map.empty [] 7 [DbConnectFailed (Other ''ECONNREFUSED'')])
   \<and> exited (execution Map.empty [] 7 [DbConnected]) = None
   \<and> trace (execution Map.empty [] 7 [DbConnected, DbDisconnected]) =
       [MongooseConnect ''mongodb://127.0.0.1:27017/chattyapp-backend'', OnDisconnected,
        NewHttpServer, NewSocketServer (Some '''') allowedMethods, CreateClient (Some ''''),
        Duplicate, Connect Pub, Connect Sub,
        Log (LogInfo ''setupDatabase'' ''Successfully connected to database''),
        MongooseConnect ''mongodb://127.0.0.1:27017/chattyapp-backend'']
   \<and> exited (execution Map.empty [] 7 [DbConnected, DbDisconnected]) = None"
proof -
  have h1: "exited (execution Map.empty [] 7 []) = None"
    by (simp add: execution_def initialize_state)
  have h2: "dbPending (execution Map.empty [] 7 []) \<noteq> 0"
    by (simp add: execution_def initialize_state)
  have h3: "exited (execution Map.empty [] 7 [DbConnected]) = None"
    by (simp add: execution_def initialize_state step_def proc_defs)
  have t0: "trace (execution Map.empty [] 7 []) =
       [MongooseConnect ''mongodb://127.0.0.1:27017/chattyapp-backend'', OnDisconnected,
        NewHttpServer, NewSocketServer (Some '''') allowedMethods, CreateClient (Some ''''),
        Duplicate, Connect Pub, Connect Sub]"
    by (simp add: execution_def initialize_state Config_new_def Let_def or_default_def
        template_def)
  have t1: "trace (execution Map.empty [] 7 [DbConnected]) =
       [MongooseConnect ''mongodb://127.0.0.1:27017/chattyapp-backend'', OnDisconnected,
        NewHttpServer, NewSocketServer (Some '''') allowedMethods, CreateClient (Some ''''),
        Duplicate, Connect Pub, Connect Sub,
        Log (LogInfo ''setupDatabase'' ''Successfully connected to database'')]"
    by (simp add: execution_def initialize_state step_def proc_defs Config_new_def Let_def
        or_default_def template_def)
  have u: "template (DATABASE_URL (Config_new Map.empty)) =
      ''mongodb://127.0.0.1:27017/chattyapp-backend''"
    by (simp add: Config_new_def Let_def or_default_def template_def)
  from database_failure_fatal_disconnect_reconnects [OF h1, of "Other ''ECONNREFUSED''"]
    database_failure_fatal_disconnect_reconnects [OF h3, of "Other ''ECONNREFUSED''"]
    h1 h2 h3 t0 t1 u
  show ?thesis by simp
qed

end
